theory Spec2Isabelle
  imports Main "HOL-Library.Word"
begin

section \<open>Organic food traceability: the backend middleware and controllers\<close>

text \<open>
  The backend is an Express application. A middleware or controller either hands the
  request on (\<open>next()\<close>) or answers it with a status code and a JSON body. Documents of
  the off-chain store are MongoDB documents; a collection is modelled as the list of its
  documents in insertion order, the order in which \<open>findOne\<close> looks at them.
\<close>

subsection \<open>Principals\<close>

text \<open>
  \<open>req.user\<close> is the payload of the verified token: an id and one role string. It is
  absent (\<open>None\<close>) when no \<open>authenticate\<close> middleware ran before.
\<close>

record user =
  u_id :: string
  u_role :: string

subsection \<open>The role check of \<open>auth.middleware.js\<close>\<close>

text \<open>
  \<open>authorize(roles = [])\<close> accepts one role name or an array of role names; a single
  name is wrapped into a one-element array before the middleware is built.
\<close>

datatype roles_arg = RoleName string | RoleArray "string list"

datatype outcome = Next | Respond nat string

definition allowed_roles :: "roles_arg \<Rightarrow> string list" where
  "allowed_roles roles = (case roles of RoleName r \<Rightarrow> [r] | RoleArray rs \<Rightarrow> rs)"

definition authorize :: "roles_arg \<Rightarrow> user option \<Rightarrow> outcome" where
  "authorize roles req_user =
     (let roles = allowed_roles roles in
      case req_user of
        None \<Rightarrow> Respond 401 ''Not authenticated''
      | Some u \<Rightarrow>
          if length roles \<noteq> 0 \<and> u_role u \<notin> set roles
          then Respond 403 ''Not authorized to access this resource''
          else Next)"

text \<open>The sibling middleware \<open>isFarmer\<close>, which does name the admin role itself.\<close>

definition isFarmer :: "user option \<Rightarrow> outcome" where
  "isFarmer req_user =
     (case req_user of
        None \<Rightarrow> Respond 401 ''Not authenticated''
      | Some u \<Rightarrow>
          if u_role u \<noteq> ''farmer'' \<and> u_role u \<noteq> ''admin''
          then Respond 403 ''Farmer access required''
          else Next)"

subsection \<open>Documents of the off-chain store\<close>




record trace_record =
  tr_action :: string
  tr_timestamp :: int
  tr_location :: string
  tr_notes :: "string option"
  tr_handler :: string
  tr_blockchainTransactionHash :: string

record batch =
  b_id :: string
  b_harvestDate :: string
  b_processingMethods :: "string list"
  b_products :: "string list"
  b_blockchainBatchId :: nat
  b_transactionHash :: string
  b_handlers :: "string list"
  b_traceabilityRecords :: "trace_record list"
  b_isActive :: bool




subsection \<open>The environment of one request\<close>





subsection \<open>Replies\<close>










subsection \<open>Store writes\<close>





subsection \<open>\<open>certification.controller.js\<close>\<close>





subsection \<open>\<open>product.controller.js\<close>\<close>




subsection \<open>\<open>batch.controller.js\<close>\<close>







subsection \<open>\<open>qrcode.controller.js\<close>\<close>





subsection \<open>The state-changing operations\<close>






section \<open>The ledger contract \<open>OrganicFoodTraceability.sol\<close>\<close>

text \<open>
  The contract's storage is a record; a Solidity mapping is a total function whose value
  at a key never written is the zero value of the struct. A call either reverts, leaving
  the storage as it was, or returns with the new storage. \<open>msg.sender\<close> and
  \<open>block.timestamp\<close> are arguments.
\<close>

type_synonym address = "160 word"
type_synonym uint256 = "256 word"

datatype role = DEFAULT_ADMIN_ROLE | ADMIN_ROLE | FARMER_ROLE | PROCESSOR_ROLE
  | DISTRIBUTOR_ROLE | RETAILER_ROLE

record Location =
  loc_name :: string
  loc_latitude :: string
  loc_longitude :: string
  loc_additionalDetails :: string

record Farmer =
  farmer_id :: address
  farmer_name :: string
  farmer_location :: Location
  farmer_certifications :: "string list"
  farmer_isActive :: bool

record Product =
  prod_id :: uint256
  prod_name :: string
  prod_description :: string
  prod_productType :: string
  prod_farmerId :: address
  prod_batchId :: uint256
  prod_certificationIds :: "uint256 list"
  prod_createdAt :: uint256
  prod_isOrganic :: bool

record TraceabilityRecord =
  rec_timestamp :: uint256
  rec_handlerId :: address
  rec_handlerRole :: string
  rec_action :: string
  rec_location :: Location
  rec_notes :: string

record Batch =
  batch_id :: uint256
  batch_productIds :: "uint256 list"
  batch_harvestDate :: string
  batch_processingMethods :: "string list"
  batch_handlerIds :: "address list"
  batch_traceabilityRecords :: "TraceabilityRecord list"
  batch_isActive :: bool

record Certification =
  certn_id :: uint256
  certn_name :: string
  certn_issuer :: string
  certn_certificateHash :: string
  certn_issueDate :: uint256
  certn_expiryDate :: uint256
  certn_isValid :: bool

datatype event =
    FarmerRegistered address string Location
  | ProductCreated uint256 string address uint256
  | BatchCreated uint256 address "uint256 list"
  | CertificationAdded uint256 string string
  | TraceabilityRecordAdded uint256 address string
  | QRCodeRegistered string uint256

record contract =
  roles :: "role \<Rightarrow> address \<Rightarrow> bool"
  paused :: bool
  productIdCounter :: uint256
  batchIdCounter :: uint256
  certificationIdCounter :: uint256
  farmers :: "address \<Rightarrow> Farmer"
  products :: "uint256 \<Rightarrow> Product"
  batches :: "uint256 \<Rightarrow> Batch"
  certifications :: "uint256 \<Rightarrow> Certification"
  registeredQRCodes :: "string \<Rightarrow> bool"
  events :: "event list"

datatype failure = MissingRole role address | EnforcedPause | Require string

definition zero_Location :: Location where
  "zero_Location = \<lparr>loc_name = [], loc_latitude = [], loc_longitude = [],
     loc_additionalDetails = []\<rparr>"

definition zero_Farmer :: Farmer where
  "zero_Farmer = \<lparr>farmer_id = 0, farmer_name = [], farmer_location = zero_Location,
     farmer_certifications = [], farmer_isActive = False\<rparr>"

definition zero_Product :: Product where
  "zero_Product = \<lparr>prod_id = 0, prod_name = [], prod_description = [], prod_productType = [],
     prod_farmerId = 0, prod_batchId = 0, prod_certificationIds = [], prod_createdAt = 0,
     prod_isOrganic = False\<rparr>"

definition zero_Batch :: Batch where
  "zero_Batch = \<lparr>batch_id = 0, batch_productIds = [], batch_harvestDate = [],
     batch_processingMethods = [], batch_handlerIds = [], batch_traceabilityRecords = [],
     batch_isActive = False\<rparr>"

definition zero_Certification :: Certification where
  "zero_Certification = \<lparr>certn_id = 0, certn_name = [], certn_issuer = [],
     certn_certificateHash = [], certn_issueDate = 0, certn_expiryDate = 0,
     certn_isValid = False\<rparr>"

definition hasRole :: "contract \<Rightarrow> role \<Rightarrow> address \<Rightarrow> bool" where
  "hasRole s r a = roles s r a"

definition setupRole :: "role \<Rightarrow> address \<Rightarrow> contract \<Rightarrow> contract" where
  "setupRole r a s = s\<lparr>roles := (roles s)(r := (roles s r)(a := True))\<rparr>"

definition emit :: "event \<Rightarrow> contract \<Rightarrow> contract" where
  "emit ev s = s\<lparr>events := events s @ [ev]\<rparr>"

text \<open>The constructor grants both admin roles to the deployer.\<close>

definition constructor :: "address \<Rightarrow> contract" where
  "constructor sender =
     setupRole ADMIN_ROLE sender (setupRole DEFAULT_ADMIN_ROLE sender
       \<lparr>roles = (\<lambda>r a. False), paused = False, productIdCounter = 0, batchIdCounter = 0,
        certificationIdCounter = 0, farmers = (\<lambda>a. zero_Farmer),
        products = (\<lambda>i. zero_Product), batches = (\<lambda>i. zero_Batch),
        certifications = (\<lambda>i. zero_Certification), registeredQRCodes = (\<lambda>h. False),
        events = []\<rparr>)"

text \<open>The modifiers \<open>onlyRole\<close> and \<open>whenNotPaused\<close>, in the order the functions list them.\<close>

definition modifiers :: "role option \<Rightarrow> address \<Rightarrow> contract \<Rightarrow> failure option" where
  "modifiers r sender s =
     (case r of
        Some r' \<Rightarrow> if \<not> hasRole s r' sender then Some (MissingRole r' sender)
                   else if paused s then Some EnforcedPause else None
      | None \<Rightarrow> if paused s then Some EnforcedPause else None)"

definition registerFarmer ::
  "address \<Rightarrow> address \<Rightarrow> string \<Rightarrow> string \<Rightarrow> string \<Rightarrow> string \<Rightarrow> string \<Rightarrow> contract
     \<Rightarrow> failure + contract" where
  "registerFarmer sender farmerId name locationName latitude longitude additionalDetails s =
     (case modifiers (Some ADMIN_ROLE) sender s of
        Some f \<Rightarrow> Inl f
      | None \<Rightarrow>
         if \<not> farmerId \<noteq> 0 then Inl (Require ''Invalid farmer address'')
         else if \<not> length name > 0 then Inl (Require ''Name cannot be empty'')
         else
          (let location = \<lparr>loc_name = locationName, loc_latitude = latitude,
                 loc_longitude = longitude, loc_additionalDetails = additionalDetails\<rparr>;
               s = s\<lparr>farmers := (farmers s)(farmerId := \<lparr>farmer_id = farmerId,
                      farmer_name = name, farmer_location = location,
                      farmer_certifications = [], farmer_isActive = True\<rparr>)\<rparr>;
               s = setupRole FARMER_ROLE farmerId s
           in Inr (emit (FarmerRegistered farmerId name location) s)))"

definition createBatch ::
  "address \<Rightarrow> uint256 \<Rightarrow> uint256 list \<Rightarrow> string \<Rightarrow> string list \<Rightarrow> contract
     \<Rightarrow> failure + uint256 \<times> contract" where
  "createBatch sender timestamp productIds harvestDate processingMethods s =
     (case modifiers (Some FARMER_ROLE) sender s of
        Some f \<Rightarrow> Inl f
      | None \<Rightarrow>
         (let s = s\<lparr>batchIdCounter := batchIdCounter s + 1\<rparr>;
              batchId = batchIdCounter s;
              handlers = [sender];
              initialRecord = \<lparr>rec_timestamp = timestamp, rec_handlerId = sender,
                 rec_handlerRole = ''FARMER'', rec_action = ''BATCH_CREATED'',
                 rec_location = farmer_location (farmers s sender),
                 rec_notes = ''Initial batch creation''\<rparr>;
              records = [initialRecord];
              s = s\<lparr>batches := (batches s)(batchId := \<lparr>batch_id = batchId,
                     batch_productIds = productIds, batch_harvestDate = harvestDate,
                     batch_processingMethods = processingMethods, batch_handlerIds = handlers,
                     batch_traceabilityRecords = records, batch_isActive = True\<rparr>)\<rparr>
          in Inr (batchId, emit (BatchCreated batchId sender productIds) s)))"

definition createProduct ::
  "address \<Rightarrow> uint256 \<Rightarrow> string \<Rightarrow> string \<Rightarrow> string \<Rightarrow> uint256 \<Rightarrow> bool \<Rightarrow> contract
     \<Rightarrow> failure + uint256 \<times> contract" where
  "createProduct sender timestamp name description productType batchId isOrganic s =
     (case modifiers (Some FARMER_ROLE) sender s of
        Some f \<Rightarrow> Inl f
      | None \<Rightarrow>
         if \<not> length name > 0 then Inl (Require ''Name cannot be empty'')
         else if \<not> farmer_isActive (farmers s sender) then Inl (Require ''Farmer is not active'')
         else
          (case (if batchId = 0 then createBatch sender timestamp [] [] [] s
                 else if \<not> batch_isActive (batches s batchId)
                      then Inl (Require ''Batch is not active'')
                      else Inr (batchId, s)) of
             Inl f \<Rightarrow> Inl f
           | Inr (newBatchId, s) \<Rightarrow>
              (let s = s\<lparr>productIdCounter := productIdCounter s + 1\<rparr>;
                   productId = productIdCounter s;
                   s = s\<lparr>products := (products s)(productId := \<lparr>prod_id = productId,
                          prod_name = name, prod_description = description,
                          prod_productType = productType, prod_farmerId = sender,
                          prod_batchId = newBatchId, prod_certificationIds = [],
                          prod_createdAt = timestamp, prod_isOrganic = isOrganic\<rparr>)\<rparr>;
                   b = batches s newBatchId;
                   s = s\<lparr>batches := (batches s)(newBatchId :=
                          b\<lparr>batch_productIds := batch_productIds b @ [productId]\<rparr>)\<rparr>
               in Inr (productId, emit (ProductCreated productId name sender newBatchId) s))))"

definition addCertification ::
  "address \<Rightarrow> string \<Rightarrow> string \<Rightarrow> string \<Rightarrow> uint256 \<Rightarrow> uint256 \<Rightarrow> contract
     \<Rightarrow> failure + uint256 \<times> contract" where
  "addCertification sender name issuer certificateHash issueDate expiryDate s =
     (case modifiers (Some ADMIN_ROLE) sender s of
        Some f \<Rightarrow> Inl f
      | None \<Rightarrow>
         if \<not> length name > 0 then Inl (Require ''Name cannot be empty'')
         else if \<not> length issuer > 0 then Inl (Require ''Issuer cannot be empty'')
         else if \<not> length certificateHash > 0
         then Inl (Require ''Certificate hash cannot be empty'')
         else
          (let s = s\<lparr>certificationIdCounter := certificationIdCounter s + 1\<rparr>;
               certificationId = certificationIdCounter s;
               s = s\<lparr>certifications := (certifications s)(certificationId :=
                      \<lparr>certn_id = certificationId, certn_name = name, certn_issuer = issuer,
                       certn_certificateHash = certificateHash, certn_issueDate = issueDate,
                       certn_expiryDate = expiryDate, certn_isValid = True\<rparr>)\<rparr>
           in Inr (certificationId, emit (CertificationAdded certificationId name issuer) s)))"

definition addCertificationToProduct ::
  "address \<Rightarrow> uint256 \<Rightarrow> uint256 \<Rightarrow> contract \<Rightarrow> failure + contract" where
  "addCertificationToProduct sender productId certificationId s =
     (case modifiers (Some ADMIN_ROLE) sender s of
        Some f \<Rightarrow> Inl f
      | None \<Rightarrow>
         if \<not> prod_id (products s productId) = productId
         then Inl (Require ''Product does not exist'')
         else if \<not> certn_id (certifications s certificationId) = certificationId
         then Inl (Require ''Certification does not exist'')
         else if \<not> certn_isValid (certifications s certificationId)
         then Inl (Require ''Certification is not valid'')
         else
          (let p = products s productId
           in Inr (s\<lparr>products := (products s)(productId :=
                      p\<lparr>prod_certificationIds := prod_certificationIds p @ [certificationId]\<rparr>)\<rparr>)))"

text \<open>
  The handler role of a new traceability record: four \<open>if\<close> statements without \<open>else\<close>,
  each assigning the same local variable.
\<close>

definition handlerRole_of :: "contract \<Rightarrow> address \<Rightarrow> string" where
  "handlerRole_of s sender =
     (let handlerRole = ''UNKNOWN'';
          handlerRole = (if hasRole s FARMER_ROLE sender then ''FARMER'' else handlerRole);
          handlerRole = (if hasRole s PROCESSOR_ROLE sender then ''PROCESSOR'' else handlerRole);
          handlerRole = (if hasRole s DISTRIBUTOR_ROLE sender then ''DISTRIBUTOR'' else handlerRole);
          handlerRole = (if hasRole s RETAILER_ROLE sender then ''RETAILER'' else handlerRole)
      in handlerRole)"

text \<open>The loop that looks for the sender among the handlers, leaving at the first hit.\<close>

fun handlerExists :: "address list \<Rightarrow> address \<Rightarrow> bool" where
  "handlerExists [] sender = False"
| "handlerExists (h # hs) sender = (if h = sender then True else handlerExists hs sender)"

definition addTraceabilityRecord ::
  "address \<Rightarrow> uint256 \<Rightarrow> uint256 \<Rightarrow> string \<Rightarrow> string \<Rightarrow> string \<Rightarrow> string \<Rightarrow> string \<Rightarrow> string
     \<Rightarrow> contract \<Rightarrow> failure + contract" where
  "addTraceabilityRecord sender timestamp batchId action locationName latitude longitude
       additionalDetails notes s =
     (case modifiers None sender s of
        Some f \<Rightarrow> Inl f
      | None \<Rightarrow>
         if \<not> batch_id (batches s batchId) = batchId then Inl (Require ''Batch does not exist'')
         else if \<not> batch_isActive (batches s batchId) then Inl (Require ''Batch is not active'')
         else if \<not> (hasRole s FARMER_ROLE sender \<or> hasRole s PROCESSOR_ROLE sender
                    \<or> hasRole s DISTRIBUTOR_ROLE sender \<or> hasRole s RETAILER_ROLE sender)
         then Inl (Require ''Unauthorized role'')
         else
          (let handlerRole = handlerRole_of s sender;
               location = \<lparr>loc_name = locationName, loc_latitude = latitude,
                  loc_longitude = longitude, loc_additionalDetails = additionalDetails\<rparr>;
               record = \<lparr>rec_timestamp = timestamp, rec_handlerId = sender,
                  rec_handlerRole = handlerRole, rec_action = action, rec_location = location,
                  rec_notes = notes\<rparr>;
               b = batches s batchId;
               b = b\<lparr>batch_traceabilityRecords := batch_traceabilityRecords b @ [record]\<rparr>;
               b = (if \<not> handlerExists (batch_handlerIds b) sender
                    then b\<lparr>batch_handlerIds := batch_handlerIds b @ [sender]\<rparr> else b);
               s = s\<lparr>batches := (batches s)(batchId := b)\<rparr>
           in Inr (emit (TraceabilityRecordAdded batchId sender action) s)))"

definition registerQRCode ::
  "address \<Rightarrow> string \<Rightarrow> uint256 \<Rightarrow> contract \<Rightarrow> failure + contract" where
  "registerQRCode sender qrCodeHash productId s =
     (case modifiers (Some ADMIN_ROLE) sender s of
        Some f \<Rightarrow> Inl f
      | None \<Rightarrow>
         if \<not> length qrCodeHash > 0 then Inl (Require ''QR code hash cannot be empty'')
         else if \<not> \<not> registeredQRCodes s qrCodeHash
         then Inl (Require ''QR code already registered'')
         else if \<not> prod_id (products s productId) = productId
         then Inl (Require ''Product does not exist'')
         else Inr (emit (QRCodeRegistered qrCodeHash productId)
                (s\<lparr>registeredQRCodes := (registeredQRCodes s)(qrCodeHash := True)\<rparr>)))"

definition contract_verifyQRCode :: "string \<Rightarrow> contract \<Rightarrow> bool" where
  "contract_verifyQRCode qrCodeHash s = registeredQRCodes s qrCodeHash"

section \<open>Concrete scenarios\<close>















text \<open>
  A contract deployed by an admin who registered one farmer; the same after that farmer
  created a batch and was granted the retailer role as well (as \<open>grantRole\<close> of
  \<open>AccessControl\<close> does); and the same after the admin added one certification.
\<close>

definition ex_admin :: address where "ex_admin = 1"
definition ex_farmer :: address where "ex_farmer = 2"

definition ex_location :: Location where
  "ex_location = \<lparr>loc_name = ''Field'', loc_latitude = ''1.0'', loc_longitude = ''2.0'',
     loc_additionalDetails = []\<rparr>"

definition ex_roles :: "role \<Rightarrow> address \<Rightarrow> bool" where
  "ex_roles r a = (if a = ex_admin then r = DEFAULT_ADMIN_ROLE \<or> r = ADMIN_ROLE
                   else if a = ex_farmer then r = FARMER_ROLE else False)"

definition ex_contract :: contract where
  "ex_contract = \<lparr>roles = ex_roles, paused = False, productIdCounter = 0, batchIdCounter = 0,
     certificationIdCounter = 0,
     farmers = (\<lambda>a. zero_Farmer)(ex_farmer := \<lparr>farmer_id = ex_farmer, farmer_name = ''Farm'',
        farmer_location = ex_location, farmer_certifications = [], farmer_isActive = True\<rparr>),
     products = (\<lambda>i. zero_Product), batches = (\<lambda>i. zero_Batch),
     certifications = (\<lambda>i. zero_Certification), registeredQRCodes = (\<lambda>h. False),
     events = [FarmerRegistered ex_farmer ''Farm'' ex_location]\<rparr>"

definition ex_created :: "failure + uint256 \<times> contract" where
  "ex_created = createProduct ex_farmer 1000 ''Apples'' ''Red'' ''fruit'' 0 True ex_contract"

definition ex_batched :: contract where
  "ex_batched = ex_contract\<lparr>batchIdCounter := 1,
     batches := (\<lambda>i. zero_Batch)(1 := \<lparr>batch_id = 1, batch_productIds = [],
        batch_harvestDate = ''2024-01-01'', batch_processingMethods = [],
        batch_handlerIds = [ex_farmer],
        batch_traceabilityRecords = [\<lparr>rec_timestamp = 1000, rec_handlerId = ex_farmer,
           rec_handlerRole = ''FARMER'', rec_action = ''BATCH_CREATED'',
           rec_location = ex_location, rec_notes = ''Initial batch creation''\<rparr>],
        batch_isActive = True\<rparr>),
     events := [FarmerRegistered ex_farmer ''Farm'' ex_location, BatchCreated 1 ex_farmer []]\<rparr>"

definition ex_two_roles :: contract where
  "ex_two_roles = setupRole RETAILER_ROLE ex_farmer ex_batched"

definition ex_appended :: "failure + contract" where
  "ex_appended = addTraceabilityRecord ex_farmer 2000 1 ''SHIPPED'' ''Dock'' ''1.0'' ''2.0'' [] []
     ex_two_roles"

definition ex_certified :: contract where
  "ex_certified = ex_contract\<lparr>certificationIdCounter := 1,
     certifications := (\<lambda>i. zero_Certification)(1 := \<lparr>certn_id = 1, certn_name = ''Organic'',
        certn_issuer = ''Issuer'', certn_certificateHash = ''Qm1'', certn_issueDate = 10,
        certn_expiryDate = 100, certn_isValid = True\<rparr>),
     events := [FarmerRegistered ex_farmer ''Farm'' ex_location,
                CertificationAdded 1 ''Organic'' ''Issuer'']\<rparr>"

section \<open>Properties of the role check\<close>

text \<open>
  Claim C9, as the code has it. \<open>authorize\<close> is a function of the allowed roles and the
  principal only. An authenticated principal is let through if and only if the list of
  allowed roles is empty or contains the principal's role; a missing principal is
  answered with 401. The role \<open>admin\<close> is treated like every other role: it passes a
  non-empty list only when the list names it.
\<close>

theorem authorize_allows_iff_listed:
  "((authorize required (Some u) = Next) =
      (allowed_roles required = [] \<or> u_role u \<in> set (allowed_roles required)))
   \<and> authorize required None = Respond 401 ''Not authenticated''"
  by (auto simp: authorize_def Let_def)

theorem authorize_allows_iff_listed_witness:
  "authorize (RoleArray [''farmer'', ''admin'']) (Some \<lparr>u_id = ''u1'', u_role = ''admin''\<rparr>) = Next
   \<and> authorize (RoleArray []) (Some \<lparr>u_id = ''u2'', u_role = ''consumer''\<rparr>) = Next
   \<and> authorize (RoleName ''farmer'') (Some \<lparr>u_id = ''u2'', u_role = ''consumer''\<rparr>)
       = Respond 403 ''Not authorized to access this resource''"
  using authorize_allows_iff_listed [of "RoleArray [''farmer'', ''admin'']" "\<lparr>u_id = ''u1'', u_role = ''admin''\<rparr>"]
        authorize_allows_iff_listed [of "RoleArray []" "\<lparr>u_id = ''u2'', u_role = ''consumer''\<rparr>"]
  by (simp add: allowed_roles_def authorize_def)

text \<open>
  Claim C9, as the specification words it, fails: a principal whose role is \<open>admin\<close> is
  refused by \<open>authorize\<close> when the non-empty list of allowed roles does not name \<open>admin\<close>.
\<close>

theorem authorize_admin_not_listed_denied:
  "authorize (RoleArray [''farmer'']) (Some \<lparr>u_id = ''u1'', u_role = ''admin''\<rparr>)
     = Respond 403 ''Not authorized to access this resource''"
  by (simp add: authorize_def allowed_roles_def)

section \<open>Writing a document back\<close>




section \<open>Certification verification\<close>




section \<open>QR code verification\<close>






section \<open>Soft deletion\<close>







section \<open>Ledger first, store second\<close>










section \<open>Properties of the ledger contract\<close>

text \<open>The concrete contracts are reached by calls of the contract's own functions.\<close>

lemma ex_contract_facts:
  "hasRole ex_contract FARMER_ROLE ex_farmer" "\<not> paused ex_contract"
  "farmer_isActive (farmers ex_contract ex_farmer)"
  "batchIdCounter ex_contract = 0" "productIdCounter ex_contract = 0"
  by (simp_all add: ex_contract_def ex_roles_def ex_admin_def ex_farmer_def hasRole_def)

lemma roles_after_register:
  "(\<lambda>r a. False)(DEFAULT_ADMIN_ROLE := (\<lambda>a. False)(ex_admin := True),
       ADMIN_ROLE := (\<lambda>a. False)(ex_admin := True),
       FARMER_ROLE := (\<lambda>a. False)(ex_farmer := True)) = ex_roles"
  by (auto simp: fun_eq_iff ex_roles_def ex_admin_def ex_farmer_def)

lemma ex_contract_reached:
  "registerFarmer ex_admin ex_farmer ''Farm'' ''Field'' ''1.0'' ''2.0'' [] (constructor ex_admin)
     = Inr ex_contract"
proof -
  have adm: "modifiers (Some ADMIN_ROLE) ex_admin (constructor ex_admin) = None"
    by (simp add: modifiers_def hasRole_def constructor_def setupRole_def)
  have nz: "ex_farmer \<noteq> 0" by (simp add: ex_farmer_def)
  have "registerFarmer ex_admin ex_farmer ''Farm'' ''Field'' ''1.0'' ''2.0'' [] (constructor ex_admin)
      = Inr (emit (FarmerRegistered ex_farmer ''Farm'' ex_location)
          (setupRole FARMER_ROLE ex_farmer
            ((constructor ex_admin)\<lparr>farmers := (farmers (constructor ex_admin))(ex_farmer :=
               \<lparr>farmer_id = ex_farmer, farmer_name = ''Farm'', farmer_location = ex_location,
                farmer_certifications = [], farmer_isActive = True\<rparr>)\<rparr>)))"
    by (simp add: registerFarmer_def adm nz Let_def ex_location_def)
  also have "\<dots> = Inr ex_contract"
    by (simp add: constructor_def setupRole_def emit_def ex_contract_def roles_after_register)
  finally show ?thesis .
qed

lemma ex_batched_reached:
  "createBatch ex_farmer 1000 [] ''2024-01-01'' [] ex_contract = Inr (1, ex_batched)"
proof -
  have m: "modifiers (Some FARMER_ROLE) ex_farmer ex_contract = None"
    by (simp add: modifiers_def ex_contract_facts)
  show ?thesis
    unfolding createBatch_def m
    by (simp add: Let_def emit_def ex_batched_def ex_contract_def)
qed

lemma ex_certified_reached:
  "addCertification ex_admin ''Organic'' ''Issuer'' ''Qm1'' 10 100 ex_contract
     = Inr (1, ex_certified)"
proof -
  have m: "modifiers (Some ADMIN_ROLE) ex_admin ex_contract = None"
    by (simp add: modifiers_def hasRole_def ex_contract_def ex_roles_def)
  show ?thesis
    unfolding addCertification_def m
    by (simp add: Let_def emit_def ex_certified_def ex_contract_def)
qed

subsection \<open>Product creation\<close>

lemma createBatch_Inr:
  "createBatch sender timestamp productIds harvestDate processingMethods s = Inr (b, s') \<Longrightarrow>
     b = batchIdCounter s + 1 \<and> batchIdCounter s' = b
   \<and> batches s' = (batches s)(b := \<lparr>batch_id = b,
          batch_productIds = productIds, batch_harvestDate = harvestDate,
          batch_processingMethods = processingMethods, batch_handlerIds = [sender],
          batch_traceabilityRecords = [\<lparr>rec_timestamp = timestamp, rec_handlerId = sender,
                 rec_handlerRole = ''FARMER'', rec_action = ''BATCH_CREATED'',
                 rec_location = farmer_location (farmers s sender),
                 rec_notes = ''Initial batch creation''\<rparr>], batch_isActive = True\<rparr>)
   \<and> products s' = products s \<and> productIdCounter s' = productIdCounter s"
  by (auto simp: createBatch_def Let_def emit_def split: option.splits)

lemma createProduct_zero:
  assumes "createProduct sender timestamp name description productType 0 isOrganic s = Inr (productId, s')"
  shows "\<exists>b s1. createBatch sender timestamp [] [] [] s = Inr (b, s1)
     \<and> productId = productIdCounter s1 + 1
     \<and> s' = emit (ProductCreated productId name sender b)
       (s1\<lparr>productIdCounter := productIdCounter s1 + 1,
           products := (products s1)(productIdCounter s1 + 1 := \<lparr>prod_id = productIdCounter s1 + 1,
                          prod_name = name, prod_description = description,
                          prod_productType = productType, prod_farmerId = sender,
                          prod_batchId = b, prod_certificationIds = [],
                          prod_createdAt = timestamp, prod_isOrganic = isOrganic\<rparr>),
           batches := (batches s1)(b := (batches s1 b)\<lparr>batch_productIds :=
               batch_productIds (batches s1 b) @ [productIdCounter s1 + 1]\<rparr>)\<rparr>)"
proof (cases "createBatch sender timestamp [] [] [] s")
  case (Inl f)
  with assms show ?thesis
    by (simp add: createProduct_def split: option.splits if_splits)
next
  case (Inr bs)
  obtain b s1 where bs: "bs = (b, s1)" by (cases bs)
  with Inr assms show ?thesis
    by (auto simp: createProduct_def Let_def split: option.splits if_splits)
qed

lemma createProduct_succeeds:
  assumes "hasRole s FARMER_ROLE sender" "\<not> paused s" "name \<noteq> []"
    "farmer_isActive (farmers s sender)"
  shows "\<exists>productId s'. createProduct sender timestamp name description productType 0 isOrganic s
           = Inr (productId, s')"
  using assms
  by (simp add: createProduct_def createBatch_def modifiers_def Let_def)

text \<open>
  Claim C8. A call of \<open>createProduct\<close> with batch id 0 that returns has created a new
  batch, whose id is the next value of the batch counter, and a new product: after the
  call the product list of that batch is exactly the new product, the product's batch
  reference is that batch, and every other batch is as before. (The call returns
  for every active farmer with a non-empty name while the contract is not paused.)
\<close>

theorem createProduct_new_batch:
  assumes "createProduct sender timestamp name description productType 0 isOrganic s = Inr (productId, s')"
  shows "batchIdCounter s' = batchIdCounter s + 1
       \<and> productId = productIdCounter s + 1
       \<and> batch_id (batches s' (batchIdCounter s')) = batchIdCounter s'
       \<and> batch_isActive (batches s' (batchIdCounter s'))
       \<and> batch_productIds (batches s' (batchIdCounter s')) = [productId]
       \<and> prod_id (products s' productId) = productId
       \<and> prod_batchId (products s' productId) = batchIdCounter s'
       \<and> (\<forall>b. b \<noteq> batchIdCounter s' \<longrightarrow> batches s' b = batches s b)"
proof -
  from createProduct_zero[OF assms] obtain b s1 where
    cb: "createBatch sender timestamp [] [] [] s = Inr (b, s1)"
    and pid: "productId = productIdCounter s1 + 1"
    and s': "s' = emit (ProductCreated productId name sender b)
       (s1\<lparr>productIdCounter := productIdCounter s1 + 1,
           products := (products s1)(productIdCounter s1 + 1 := \<lparr>prod_id = productIdCounter s1 + 1,
                          prod_name = name, prod_description = description,
                          prod_productType = productType, prod_farmerId = sender,
                          prod_batchId = b, prod_certificationIds = [],
                          prod_createdAt = timestamp, prod_isOrganic = isOrganic\<rparr>),
           batches := (batches s1)(b := (batches s1 b)\<lparr>batch_productIds :=
               batch_productIds (batches s1 b) @ [productIdCounter s1 + 1]\<rparr>)\<rparr>)"
    by blast
  note B = createBatch_Inr[OF cb]
  from B s' pid show ?thesis by (simp add: emit_def)
qed

theorem createProduct_new_batch_witness:
  "\<exists>s'. ex_created = Inr (1, s')
     \<and> batchIdCounter ex_contract = 0 \<and> batchIdCounter s' = 1
     \<and> batch_productIds (batches s' 1) = [1]
     \<and> prod_batchId (products s' 1) = 1"
proof -
  from createProduct_succeeds[of ex_contract ex_farmer "''Apples''" 1000 "''Red''" "''fruit''" True]
    ex_contract_facts
  obtain productId s' where c: "ex_created = Inr (productId, s')"
    by (auto simp: ex_created_def)
  from createProduct_new_batch[OF c[unfolded ex_created_def]] ex_contract_facts c
  show ?thesis by auto
qed

subsection \<open>The handler role of a traceability record\<close>

lemma addTraceabilityRecord_succeeds:
  assumes "\<not> paused s" "batch_id (batches s batchId) = batchId" "batch_isActive (batches s batchId)"
    "hasRole s FARMER_ROLE sender \<or> hasRole s PROCESSOR_ROLE sender
          \<or> hasRole s DISTRIBUTOR_ROLE sender \<or> hasRole s RETAILER_ROLE sender"
  shows "\<exists>s'. addTraceabilityRecord sender timestamp batchId action locationName latitude longitude
             additionalDetails notes s = Inr s'"
  using assms by (simp add: addTraceabilityRecord_def modifiers_def Let_def)

lemma ex_two_roles_facts:
  "hasRole ex_two_roles FARMER_ROLE ex_farmer" "hasRole ex_two_roles RETAILER_ROLE ex_farmer"
  "\<not> hasRole ex_two_roles PROCESSOR_ROLE ex_farmer" "\<not> hasRole ex_two_roles DISTRIBUTOR_ROLE ex_farmer"
  "\<not> paused ex_two_roles" "batch_id (batches ex_two_roles 1) = 1"
  "batch_isActive (batches ex_two_roles 1)"
  "length (batch_traceabilityRecords (batches ex_two_roles 1)) = 1"
  by (simp_all add: ex_two_roles_def ex_batched_def setupRole_def ex_contract_def ex_roles_def
      ex_admin_def ex_farmer_def hasRole_def)

text \<open>
  Claim C4, as the code has it. A call of \<open>addTraceabilityRecord\<close> that returns was made
  by a sender holding at least one of the four handler roles and has appended exactly one
  record, whose handler role is fixed by the precedence retailer, distributor,
  processor, farmer: the last of the four tests that succeeds wins, and \<open>FARMER\<close> is
  recorded only for a sender that holds none of the other three roles.
\<close>

theorem addTraceabilityRecord_last_role_wins:
  assumes "addTraceabilityRecord sender timestamp batchId action locationName latitude longitude
             additionalDetails notes s = Inr s'"
  shows "(hasRole s FARMER_ROLE sender \<or> hasRole s PROCESSOR_ROLE sender
          \<or> hasRole s DISTRIBUTOR_ROLE sender \<or> hasRole s RETAILER_ROLE sender)
       \<and> (\<exists>r. batch_traceabilityRecords (batches s' batchId)
                 = batch_traceabilityRecords (batches s batchId) @ [r]
              \<and> rec_handlerId r = sender
              \<and> rec_handlerRole r =
                  (if hasRole s RETAILER_ROLE sender then ''RETAILER''
                   else if hasRole s DISTRIBUTOR_ROLE sender then ''DISTRIBUTOR''
                   else if hasRole s PROCESSOR_ROLE sender then ''PROCESSOR''
                   else ''FARMER''))"
  using assms
  by (auto simp: addTraceabilityRecord_def handlerRole_of_def Let_def emit_def
      split: option.splits if_splits)

theorem addTraceabilityRecord_last_role_wins_witness:
  "\<exists>s' r. ex_appended = Inr s'
     \<and> batch_traceabilityRecords (batches s' 1)
          = batch_traceabilityRecords (batches ex_two_roles 1) @ [r]
     \<and> rec_handlerRole r = ''RETAILER''"
proof -
  have "\<exists>s'. ex_appended = Inr s'"
    unfolding ex_appended_def
    by (rule addTraceabilityRecord_succeeds) (simp_all add: ex_two_roles_facts)
  then obtain s' where a: "ex_appended = Inr s'" ..
  from addTraceabilityRecord_last_role_wins[OF a[unfolded ex_appended_def]] ex_two_roles_facts a
  show ?thesis by auto
qed

text \<open>
  Claim C4, as the specification words it, fails: a sender holding the farmer and the
  retailer role is recorded as \<open>RETAILER\<close>.
\<close>

theorem addTraceabilityRecord_farmer_and_retailer:
  "hasRole ex_two_roles FARMER_ROLE ex_farmer \<and> hasRole ex_two_roles RETAILER_ROLE ex_farmer
   \<and> \<not> isl ex_appended
   \<and> rec_handlerRole (last (batch_traceabilityRecords (batches (projr ex_appended) 1))) = ''RETAILER''
   \<and> rec_handlerRole (last (batch_traceabilityRecords (batches (projr ex_appended) 1))) \<noteq> ''FARMER''"
  by (simp add: ex_appended_def addTraceabilityRecord_def handlerRole_of_def modifiers_def
      ex_two_roles_facts Let_def emit_def)

subsection \<open>Attaching a certification to a product\<close>

lemma ex_certified_facts:
  "hasRole ex_certified ADMIN_ROLE ex_admin" "\<not> paused ex_certified"
  "productIdCounter ex_certified = 0" "certificationIdCounter ex_certified = 1"
  "products ex_certified = (\<lambda>i. zero_Product)"
  "certn_id (certifications ex_certified 1) = 1" "certn_isValid (certifications ex_certified 1)"
  "certifications ex_certified 0 = zero_Certification"
  by (simp_all add: ex_certified_def ex_contract_def ex_roles_def hasRole_def)

lemma addCertificationToProduct_rejects:
  assumes "hasRole s ADMIN_ROLE sender" "\<not> paused s"
  shows "(prod_id (products s productId) \<noteq> productId \<longrightarrow>
            addCertificationToProduct sender productId certificationId s
              = Inl (Require ''Product does not exist''))
       \<and> (prod_id (products s productId) = productId
            \<and> certn_id (certifications s certificationId) \<noteq> certificationId \<longrightarrow>
            addCertificationToProduct sender productId certificationId s
              = Inl (Require ''Certification does not exist''))
       \<and> (prod_id (products s productId) = productId
            \<and> certn_id (certifications s certificationId) = certificationId
            \<and> \<not> certn_isValid (certifications s certificationId) \<longrightarrow>
            addCertificationToProduct sender productId certificationId s
              = Inl (Require ''Certification is not valid''))"
  using assms by (simp add: addCertificationToProduct_def modifiers_def)

lemma addCertificationToProduct_appends:
  assumes "addCertificationToProduct sender productId certificationId s = Inr s'"
  shows "certn_isValid (certifications s certificationId)
       \<and> prod_certificationIds (products s' productId)
            = prod_certificationIds (products s productId) @ [certificationId]
       \<and> certifications s' = certifications s"
  using assms
  by (auto simp: addCertificationToProduct_def Let_def split: option.splits if_splits)

text \<open>
  Claim C5 at the ids that were never allocated. The counters start at 1, so id 0 names
  no product and no certification; but the existence test compares the id stored in the
  (zero) struct with the id asked for, and 0 passes it. Attaching the valid certification
  1 to product 0 returns and extends the list of the product that does not exist, and
  attaching certification 0 is refused as not valid rather than as not existing.
\<close>

theorem addCertificationToProduct_product_zero:
  "productIdCounter ex_certified = 0
   \<and> products ex_certified 0 = zero_Product
   \<and> certn_isValid (certifications ex_certified 1)
   \<and> \<not> isl (addCertificationToProduct ex_admin 0 1 ex_certified)
   \<and> prod_certificationIds (products (projr (addCertificationToProduct ex_admin 0 1 ex_certified)) 0) = [1]
   \<and> addCertificationToProduct ex_admin 0 0 ex_certified = Inl (Require ''Certification is not valid'')"
  by (simp add: addCertificationToProduct_def modifiers_def ex_certified_facts zero_Product_def
      zero_Certification_def Let_def)

end
